theory Spec2Isabelle
  imports Main "HOL-Library.Sublist" "HOL-Library.Word"
begin

section \<open>The file service: \<^verbatim>\<open>auth/handlers.go\<close>\<close>

text \<open>
  The six handlers of \<^verbatim>\<open>handlers.go\<close> are embedded as functions from an environment and
  a request to the response written and the list of store calls made, in order. The
  repository's helpers \<^verbatim>\<open>getStorePathFromClaims\<close>, \<^verbatim>\<open>readFileData\<close>,
  \<^verbatim>\<open>createOrOverwriteFileIfNotExists\<close>, \<^verbatim>\<open>fileNamesFromDirPath\<close> and the constants
  \<^verbatim>\<open>romPath\<close>, \<^verbatim>\<open>savePath\<close> live in files that are not part of the sources at hand:
  they are fields of the environment, so every theorem holds for whatever they are.
\<close>

subsection \<open>Data\<close>

type_synonym byte = "8 word"

text \<open>\<^verbatim>\<open>multipart.FileHeader\<close>: only \<^verbatim>\<open>Filename\<close> is read by the handlers.\<close>

record FileHeader =
  Filename :: string

text \<open>
  What a handler leaves in its \<^verbatim>\<open>http.ResponseWriter\<close>: the status code (200 when
  \<^verbatim>\<open>WriteHeader\<close> is never called), the headers it added and the body it wrote.
\<close>

datatype Payload =
    NoBody
  | Plain string
  | Json "string list"
  | FileContent "byte list"

record Response =
  status :: nat
  headers :: "(string \<times> string) list"
  payload :: Payload

text \<open>The calls a handler makes into the file store, with the path it passes.\<close>

datatype StoreCall =
    ReadFileData string
  | CreateOrOverwriteFile string "byte list"
  | FileNamesFromDirPath string

text \<open>
  The request: the URL's query parameters, the request context (where the authentication
  middleware leaves the verified claims) and the bytes of the body, all of them.
\<close>

record 'ctx Request =
  URLQuery :: "(string \<times> string) list"
  Ctx :: 'ctx
  Body :: "byte list"

text \<open>
  The environment of the handlers. A Go result \<^verbatim>\<open>(v, err)\<close> is an option, \<open>None\<close> when
  \<^verbatim>\<open>err != nil\<close>; \<open>createOrOverwriteFileIfNotExists\<close> returns only an error and is
  \<open>True\<close> when that error is \<^verbatim>\<open>nil\<close>. \<open>multipartForm\<close> is the decoding of a request body
  by \<^verbatim>\<open>mime/multipart\<close>: \<open>None\<close> when the body does not hold a multipart form, and
  otherwise the number of bytes from the start of the body to the end of the form's
  closing boundary, which is as far as the parser reads, with the file parts by field
  name.
\<close>

record 'ctx Env =
  romPath :: string
  savePath :: string
  getStorePathFromClaims :: "'ctx \<Rightarrow> string option"
  readFileData :: "string \<Rightarrow> byte list option"
  createOrOverwriteFileIfNotExists :: "string \<Rightarrow> byte list \<Rightarrow> bool"
  fileNamesFromDirPath :: "string \<Rightarrow> string list option"
  multipartForm ::
    "byte list \<Rightarrow> (nat \<times> (string \<Rightarrow> (byte list \<times> FileHeader) option)) option"

definition StatusOK :: nat where
  "StatusOK = 200"

definition StatusBadRequest :: nat where
  "StatusBadRequest = 400"

definition StatusInternalServerError :: nat where
  "StatusInternalServerError = 500"

text \<open>\<^verbatim>\<open>w.WriteHeader(code); return\<close>: a response with a status and nothing else.\<close>

definition WriteHeader :: "nat \<Rightarrow> Response" where
  "WriteHeader code = \<lparr>status = code, headers = [], payload = NoBody\<rparr>"

subsection \<open>Library functions the handlers call\<close>

text \<open>\<^verbatim>\<open>url.Values.Get\<close>: the first value of the key, the empty string when there is none.\<close>

definition Get :: "(string \<times> string) list \<Rightarrow> string \<Rightarrow> string" where
  "Get q k = (case map_of q k of None \<Rightarrow> [] | Some v \<Rightarrow> v)"

text \<open>
  \<^verbatim>\<open>filepath.Ext\<close>: the suffix beginning at the final dot of the final element of the
  path, empty when that element has no dot. Go scans from the last byte leftwards and
  stops at a path separator; \<open>extScan\<close> is that loop on the reversed path, \<open>acc\<close> the
  bytes already passed.
\<close>

fun extScan :: "string \<Rightarrow> string \<Rightarrow> string" where
  "extScan [] acc = []"
| "extScan (c # cs) acc =
     (if c = CHR ''/'' then []
      else if c = CHR ''.'' then c # acc
      else extScan cs (c # acc))"

definition Ext :: "string \<Rightarrow> string" where
  "Ext path = extScan (rev path) []"

text \<open>
  \<^verbatim>\<open>http.MaxBytesReader(w, r.Body, n)\<close>: a reader over the body that hands out its bytes
  as they are asked for and fails with a \<^verbatim>\<open>MaxBytesError\<close> once more than \<open>n\<close> bytes are
  read. It does not look at the length of the body: bytes nobody reads do not count.
\<close>

record LimitedReader =
  underlying :: "byte list"
  limitBytes :: int

definition MaxBytesReader :: "byte list \<Rightarrow> int \<Rightarrow> LimitedReader" where
  "MaxBytesReader b n = \<lparr>underlying = b, limitBytes = n\<rparr>"

text \<open>
  Reading the first \<open>k\<close> bytes through the limited reader: the bytes, or \<open>None\<close> for the
  error when \<open>k\<close> is more than the limit. Nothing is cut off: a read past the limit is an
  error, not a prefix.
\<close>

definition readPrefix :: "LimitedReader \<Rightarrow> nat \<Rightarrow> byte list option" where
  "readPrefix rd k = (if limitBytes rd < int k then None else Some (take k (underlying rd)))"

text \<open>
  \<^verbatim>\<open>r.FormFile(key)\<close>: parses the body as a multipart form, reading it through the
  limited reader up to the end of the closing boundary, and returns the first file of the
  field. It fails when the body holds no multipart form, when a read fails and when the
  field has no file.
\<close>

definition FormFile ::
  "'ctx Env \<Rightarrow> LimitedReader \<Rightarrow> string \<Rightarrow> (byte list \<times> FileHeader) option" where
  "FormFile env limited key =
     (case multipartForm env (underlying limited) of
        None \<Rightarrow> None
      | Some (formEnd, files) \<Rightarrow>
          (case readPrefix limited formEnd of
             None \<Rightarrow> None
           | Some read \<Rightarrow> files key))"

subsection \<open>The handlers\<close>

text \<open>\<^verbatim>\<open>50<<20+1024\<close>; in Go the shift binds tighter than the sum.\<close>

definition maxUploadBytes :: int where
  "maxUploadBytes = push_bit 20 50 + 1024"

definition validRomExtensions :: "string list" where
  "validRomExtensions = [''.gba'', ''.gbc'', ''.gb'', ''.zip'', ''.7z'']"

definition extensionMessage :: string where
  "extensionMessage =
     ''File not in gba format, expected extensions are .gba/.gbc/.gb/.zip/.7z''"

text \<open>
  \<^verbatim>\<open>http.ServeContent\<close> is taken at its plain outcome, the whole content with status 200;
  range and conditional requests are not modelled.
\<close>

definition downloadSave :: "'ctx Env \<Rightarrow> 'ctx Request \<Rightarrow> Response \<times> StoreCall list" where
  "downloadSave env r =
     (let fname = Get (URLQuery r) ''save'' in
      if fname = [] then (WriteHeader StatusBadRequest, [])
      else
        (case getStorePathFromClaims env (Ctx r) of
           None \<Rightarrow> (WriteHeader StatusBadRequest, [])
         | Some storePath \<Rightarrow>
             (let p = savePath env @ storePath @ fname in
              case readFileData env p of
                None \<Rightarrow> (WriteHeader StatusInternalServerError, [ReadFileData p])
              | Some d \<Rightarrow>
                  (\<lparr>status = StatusOK,
                    headers = [(''Content-Type'', ''application/octet-stream'')],
                    payload = FileContent d\<rparr>,
                   [ReadFileData p]))))"

definition downloadRom :: "'ctx Env \<Rightarrow> 'ctx Request \<Rightarrow> Response \<times> StoreCall list" where
  "downloadRom env r =
     (let fname = Get (URLQuery r) ''rom'' in
      if fname = [] then (WriteHeader StatusBadRequest, [])
      else
        (case getStorePathFromClaims env (Ctx r) of
           None \<Rightarrow> (WriteHeader StatusBadRequest, [])
         | Some storePath \<Rightarrow>
             (let p = romPath env @ storePath @ fname in
              case readFileData env p of
                None \<Rightarrow> (WriteHeader StatusInternalServerError, [ReadFileData p])
              | Some d \<Rightarrow>
                  (\<lparr>status = StatusOK,
                    headers = [(''Content-Type'', ''application/x-gba-rom'')],
                    payload = FileContent d\<rparr>,
                   [ReadFileData p]))))"

definition uploadRom :: "'ctx Env \<Rightarrow> 'ctx Request \<Rightarrow> Response \<times> StoreCall list" where
  "uploadRom env r =
     (case FormFile env (MaxBytesReader (Body r) maxUploadBytes) ''rom'' of
        None \<Rightarrow> (WriteHeader StatusBadRequest, [])
      | Some (file, handler) \<Rightarrow>
          (let fileExtension = Ext (Filename handler) in
           if fileExtension \<notin> set validRomExtensions
           then (\<lparr>status = StatusBadRequest, headers = [], payload = Plain extensionMessage\<rparr>, [])
           else
             (case getStorePathFromClaims env (Ctx r) of
                None \<Rightarrow> (WriteHeader StatusBadRequest, [])
              | Some storePath \<Rightarrow>
                  (let p = romPath env @ storePath @ Filename handler in
                   if createOrOverwriteFileIfNotExists env p file
                   then (WriteHeader StatusOK, [CreateOrOverwriteFile p file])
                   else (WriteHeader StatusInternalServerError,
                         [CreateOrOverwriteFile p file])))))"

definition uploadSave :: "'ctx Env \<Rightarrow> 'ctx Request \<Rightarrow> Response \<times> StoreCall list" where
  "uploadSave env r =
     (case FormFile env (MaxBytesReader (Body r) maxUploadBytes) ''save'' of
        None \<Rightarrow> (WriteHeader StatusBadRequest, [])
      | Some (file, handler) \<Rightarrow>
          (case getStorePathFromClaims env (Ctx r) of
             None \<Rightarrow> (WriteHeader StatusBadRequest, [])
           | Some storePath \<Rightarrow>
               (let p = savePath env @ storePath @ Filename handler in
                if createOrOverwriteFileIfNotExists env p file
                then (WriteHeader StatusOK, [CreateOrOverwriteFile p file])
                else (WriteHeader StatusInternalServerError,
                      [CreateOrOverwriteFile p file]))))"

text \<open>\<^verbatim>\<open>json.Marshal\<close> of a slice of strings does not fail; its error branch is dead.\<close>

definition listAllRoms :: "'ctx Env \<Rightarrow> 'ctx Request \<Rightarrow> Response \<times> StoreCall list" where
  "listAllRoms env r =
     (case getStorePathFromClaims env (Ctx r) of
        None \<Rightarrow> (WriteHeader StatusBadRequest, [])
      | Some storePath \<Rightarrow>
          (let p = romPath env @ storePath in
           case fileNamesFromDirPath env p of
             None \<Rightarrow> (WriteHeader StatusInternalServerError, [FileNamesFromDirPath p])
           | Some fileNames \<Rightarrow>
               (\<lparr>status = StatusOK,
                 headers = [(''Content-Type'', ''application/json'')],
                 payload = Json fileNames\<rparr>,
                [FileNamesFromDirPath p])))"

definition listAllSaves :: "'ctx Env \<Rightarrow> 'ctx Request \<Rightarrow> Response \<times> StoreCall list" where
  "listAllSaves env r =
     (case getStorePathFromClaims env (Ctx r) of
        None \<Rightarrow> (WriteHeader StatusBadRequest, [])
      | Some storePath \<Rightarrow>
          (let p = savePath env @ storePath in
           case fileNamesFromDirPath env p of
             None \<Rightarrow> (WriteHeader StatusInternalServerError, [FileNamesFromDirPath p])
           | Some fileNames \<Rightarrow>
               (\<lparr>status = StatusOK,
                 headers = [(''Content-Type'', ''application/json'')],
                 payload = Json fileNames\<rparr>,
                [FileNamesFromDirPath p])))"

subsection \<open>Where a path leads\<close>

text \<open>
  The store is handed a path as one string. To say which directory a path leads into, the
  path is resolved the way the operating system walks an absolute path (symbolic links
  apart): split at the slashes, skip empty and \<^verbatim>\<open>.\<close> elements, and let \<^verbatim>\<open>..\<close> drop the
  element before it. \<open>staysUnder dir p\<close> says that the resolved \<open>p\<close> lies in the
  directory \<open>dir\<close>.
\<close>

fun splitSlash :: "string \<Rightarrow> string \<Rightarrow> string list" where
  "splitSlash [] cur = [rev cur]"
| "splitSlash (c # cs) cur =
     (if c = CHR ''/'' then rev cur # splitSlash cs [] else splitSlash cs (c # cur))"

fun resolveDots :: "string list \<Rightarrow> string list \<Rightarrow> string list" where
  "resolveDots [] stack = rev stack"
| "resolveDots (x # xs) stack =
     (if x = [] \<or> x = ''.'' then resolveDots xs stack
      else if x = ''..'' then resolveDots xs (tl stack)
      else resolveDots xs (x # stack))"

definition resolvedPath :: "string \<Rightarrow> string list" where
  "resolvedPath p = resolveDots (splitSlash p []) []"

definition staysUnder :: "string \<Rightarrow> string \<Rightarrow> bool" where
  "staysUnder dir p = prefix (resolvedPath dir) (resolvedPath p)"

subsection \<open>A concrete environment\<close>

text \<open>
  An environment to run the handlers in: the context carries the outcome of the claims
  check itself, every body is one form that ends with the body and holds one file, named
  \<open>fname\<close>, in the field \<open>field\<close>, writes succeed, and the store holds nothing to read.
\<close>

definition fixtureEnv :: "string \<Rightarrow> string \<Rightarrow> (string option) Env" where
  "fixtureEnv field fname =
     \<lparr>romPath = ''/srv/roms/'',
      savePath = ''/srv/saves/'',
      getStorePathFromClaims = (\<lambda>c. c),
      readFileData = (\<lambda>p. None),
      createOrOverwriteFileIfNotExists = (\<lambda>p d. True),
      fileNamesFromDirPath = (\<lambda>p. None),
      multipartForm =
        (\<lambda>b. Some (length b,
                    \<lambda>k. if k = field then Some (b, \<lparr>Filename = fname\<rparr>) else None))\<rparr>"

text \<open>
  The same environment for bodies with padding: the form is the first \<open>n\<close> bytes of the
  body, and whatever follows its closing boundary belongs to no part.
\<close>

definition paddedFormEnv :: "string \<Rightarrow> string \<Rightarrow> nat \<Rightarrow> (string option) Env" where
  "paddedFormEnv field fname n =
     \<lparr>romPath = ''/srv/roms/'',
      savePath = ''/srv/saves/'',
      getStorePathFromClaims = (\<lambda>c. c),
      readFileData = (\<lambda>p. None),
      createOrOverwriteFileIfNotExists = (\<lambda>p d. True),
      fileNamesFromDirPath = (\<lambda>p. None),
      multipartForm =
        (\<lambda>b. Some (min n (length b),
                    \<lambda>k. if k = field then Some (take n b, \<lparr>Filename = fname\<rparr>) else None))\<rparr>"

section \<open>The token lifecycle manager: \<^verbatim>\<open>auth-provider.tsx\<close>\<close>

text \<open>
  \<^verbatim>\<open>AuthProvider\<close> is a React component: each render reads the component's two state
  cells and the outputs of the hook \<^verbatim>\<open>useRefreshAccessToken\<close>, and computes what it hands
  to its effects and to \<^verbatim>\<open>useInterval\<close>. The embedding has one function for each value a
  render computes, over a record of what the render reads. The hook is not part of the
  sources at hand, so its outputs are plain fields: the theorems hold for whatever values
  the hook shows. \<^verbatim>\<open>jwtDecode\<close> (package \<^verbatim>\<open>jwt-decode\<close>) is a parameter: \<open>None\<close> stands for
  the \<^verbatim>\<open>InvalidTokenError\<close> it throws on a string that is not a decodable token.

  React renders the component again when a state cell or an output of the hook changes;
  the passing of time causes no render. Between two renders the record a render read
  stays as it is and only the clock moves. An effect (\<^verbatim>\<open>useEffect\<close>) runs after the first
  render and after every render in which one of its dependencies differs from its value
  in the render before; the functions below take the dependencies of the render before
  as \<open>prevDeps\<close>, \<open>None\<close> for the first render.
\<close>

subsection \<open>Data\<close>

datatype AccessTokenSource = Login | Refresh

text \<open>\<^verbatim>\<open>JwtPayload\<close>: the provider reads \<^verbatim>\<open>exp\<close> only, an optional number of seconds.\<close>

record JwtPayload =
  exp :: "int option"

datatype Exception = InvalidTokenError

text \<open>
  What a render reads: the state cells \<open>accessToken\<close> and \<open>accessTokenSource\<close>, and the
  hook's \<^verbatim>\<open>data\<close>, \<^verbatim>\<open>isLoading\<close> and \<^verbatim>\<open>error\<close> under the names the provider gives them.
  The error is an object or \<^verbatim>\<open>null\<close>.
\<close>

record 'e AuthState =
  accessToken :: "string option"
  accessTokenSource :: "AccessTokenSource option"
  accessTokenResp :: "string option"
  refreshLoading :: bool
  refreshTokenError :: "'e option"

text \<open>
  JavaScript's truthiness of a value that is a string or \<^verbatim>\<open>null\<close>: \<^verbatim>\<open>null\<close> and the empty
  string are falsy.
\<close>

definition truthy :: "string option \<Rightarrow> bool" where
  "truthy v = (case v of None \<Rightarrow> False | Some t \<Rightarrow> t \<noteq> [])"

definition fourMinutesInMS :: nat where
  "fourMinutesInMS = 240 * 1000"

subsection \<open>What a render computes\<close>

definition shouldSetAccessToken :: "'e AuthState \<Rightarrow> bool" where
  "shouldSetAccessToken s = (\<not> refreshLoading s \<and> truthy (accessTokenResp s))"

text \<open>
  The first effect, with the dependencies \<^verbatim>\<open>[shouldSetAccessToken, accessTokenResp]\<close>.
\<close>

definition assignTokenEffect ::
  "(bool \<times> string option) option \<Rightarrow> 'e AuthState \<Rightarrow> 'e AuthState" where
  "assignTokenEffect prevDeps s =
     (if prevDeps = Some (shouldSetAccessToken s, accessTokenResp s) then s
      else if shouldSetAccessToken s
      then s\<lparr>accessToken := accessTokenResp s, accessTokenSource := Some Refresh\<rparr>
      else s)"

text \<open>
  \<open>isAuthenticated\<close>, with \<open>now\<close> the value of \<^verbatim>\<open>Date.now()\<close> in milliseconds. The test
  \<^verbatim>\<open>exp && ...\<close> is falsy when \<^verbatim>\<open>exp\<close> is missing and when it is 0.
\<close>

definition isAuthenticated ::
  "(string \<Rightarrow> JwtPayload option) \<Rightarrow> string option \<Rightarrow> int \<Rightarrow> Exception + bool" where
  "isAuthenticated jwtDecode token now =
     (case token of
        None \<Rightarrow> Inr False
      | Some t \<Rightarrow>
          if t = [] then Inr False
          else
            (case jwtDecode t of
               None \<Rightarrow> Inl InvalidTokenError
             | Some p \<Rightarrow>
                 (case exp p of
                    None \<Rightarrow> Inr False
                  | Some e \<Rightarrow> if e \<noteq> 0 \<and> now \<le> e * 1000 then Inr True else Inr False)))"

definition shouldClearRefreshTokenError ::
  "(string \<Rightarrow> JwtPayload option) \<Rightarrow> 'e AuthState \<Rightarrow> int \<Rightarrow> Exception + bool" where
  "shouldClearRefreshTokenError jwtDecode s now =
     (case isAuthenticated jwtDecode (accessToken s) now of
        Inl x \<Rightarrow> Inl x
      | Inr a \<Rightarrow>
          Inr (a \<and> \<not> truthy (accessTokenResp s) \<and> accessTokenSource s \<noteq> Some Refresh))"

text \<open>
  Modelled from the spec: the hook's \<^verbatim>\<open>clearError\<close>, which the sources at hand only call.
  The spec says of it that "the error is cleared"; the other outputs are left as they are.
\<close>

definition refreshClearError :: "'e AuthState \<Rightarrow> 'e AuthState" where
  "refreshClearError s = s\<lparr>refreshTokenError := None\<rparr>"

text \<open>
  The second effect, \<^verbatim>\<open>if (shouldClearRefreshTokenError) refreshClearError()\<close>, with the
  dependencies \<^verbatim>\<open>[shouldClearRefreshTokenError, refreshClearError]\<close>. The second dependency
  is the function the hook returned in this render; \<open>clearId\<close> stands for its identity.
  When both dependencies are what they were in the render before, the effect is skipped.
\<close>

definition clearErrorEffect ::
  "(string \<Rightarrow> JwtPayload option) \<Rightarrow> (bool \<times> 'f) option \<Rightarrow> 'f \<Rightarrow> 'e AuthState \<Rightarrow> int
     \<Rightarrow> Exception + 'e AuthState" where
  "clearErrorEffect jwtDecode prevDeps clearId s now =
     (case shouldClearRefreshTokenError jwtDecode s now of
        Inl x \<Rightarrow> Inl x
      | Inr b \<Rightarrow>
          Inr (if prevDeps = Some (b, clearId) then s
               else if b then refreshClearError s
               else s))"

text \<open>
  The delay the render hands to \<^verbatim>\<open>useInterval\<close>: four minutes, or \<open>None\<close> for \<^verbatim>\<open>null\<close>.
  It is computed in a render, with the clock of that render.
\<close>

definition intervalDelay ::
  "(string \<Rightarrow> JwtPayload option) \<Rightarrow> 'e AuthState \<Rightarrow> int \<Rightarrow> Exception + nat option" where
  "intervalDelay jwtDecode s now =
     (case isAuthenticated jwtDecode (accessToken s) now of
        Inl x \<Rightarrow> Inl x
      | Inr a \<Rightarrow> Inr (if a \<and> refreshTokenError s = None then Some fourMinutesInMS else None))"

text \<open>
  One period of the timer: the number of \<^verbatim>\<open>executeRefresh()\<close> calls the interval issues
  when the period of the delay has passed that the render at \<open>renderedAt\<close> handed over,
  with no render in between. \<^verbatim>\<open>useInterval\<close> (package \<^verbatim>\<open>usehooks-ts\<close>) sets no timer for
  a \<^verbatim>\<open>null\<close> delay and otherwise runs the callback once per period; the callback is one
  \<^verbatim>\<open>executeRefresh()\<close> and reads neither the token nor the clock.
\<close>

definition intervalTick ::
  "(string \<Rightarrow> JwtPayload option) \<Rightarrow> 'e AuthState \<Rightarrow> int \<Rightarrow> Exception + nat" where
  "intervalTick jwtDecode s renderedAt =
     (case intervalDelay jwtDecode s renderedAt of
        Inl x \<Rightarrow> Inl x
      | Inr None \<Rightarrow> Inr 0
      | Inr (Some d) \<Rightarrow> Inr 1)"

text \<open>
  The time of that tick: the delay after the render, \<open>None\<close> when no timer is set.
\<close>

definition firstTickAt ::
  "(string \<Rightarrow> JwtPayload option) \<Rightarrow> 'e AuthState \<Rightarrow> int \<Rightarrow> Exception + int option" where
  "firstTickAt jwtDecode s renderedAt =
     (case intervalDelay jwtDecode s renderedAt of
        Inl x \<Rightarrow> Inl x
      | Inr None \<Rightarrow> Inr None
      | Inr (Some d) \<Rightarrow> Inr (Some (renderedAt + int d)))"

subsection \<open>A concrete decoder\<close>

text \<open>
  Four tokens to run the provider on: two that expire at second 1000 and at second 2000,
  one that expires at second 0 and one without \<^verbatim>\<open>exp\<close>. Every other string is not
  decodable.
\<close>

definition fixtureJwtDecode :: "string \<Rightarrow> JwtPayload option" where
  "fixtureJwtDecode =
     [''h.exp1000.s'' \<mapsto> \<lparr>exp = Some 1000\<rparr>,
      ''h.exp2000.s'' \<mapsto> \<lparr>exp = Some 2000\<rparr>,
      ''h.exp0.s'' \<mapsto> \<lparr>exp = Some 0\<rparr>,
      ''h.noexp.s'' \<mapsto> \<lparr>exp = None\<rparr>]"

section \<open>Properties of the file service\<close>

text \<open>
  C1. The claim: for every file operation the path accessed never leaves the directory
  resolved for the requesting subject, whatever filename the client supplies. The
  download handlers append the \<^verbatim>\<open>save\<close> or \<^verbatim>\<open>rom\<close> query parameter to the tenant's prefix
  as it came. Evaluated here: subject \<^verbatim>\<open>alice/\<close> asks for the save \<^verbatim>\<open>../bob/pokemon.sav\<close>;
  \<open>downloadSave\<close> hands the store a path that resolves outside Alice's directory and
  inside Bob's.
\<close>

theorem downloadSave_filename_traversal:
  "snd (downloadSave (fixtureEnv ''save'' ''pokemon.sav'')
          \<lparr>URLQuery = [(''save'', ''../bob/pokemon.sav'')], Ctx = Some ''alice/'', Body = []\<rparr>)
     = [ReadFileData ''/srv/saves/alice/../bob/pokemon.sav'']
   \<and> \<not> staysUnder ''/srv/saves/alice/'' ''/srv/saves/alice/../bob/pokemon.sav''
   \<and> staysUnder ''/srv/saves/bob/'' ''/srv/saves/alice/../bob/pokemon.sav''"
  by (simp add: downloadSave_def fixtureEnv_def Get_def staysUnder_def resolvedPath_def)

text \<open>
  C2, as stated, fails: a ROM upload whose claims resolution fails and whose filename
  ends in \<^verbatim>\<open>.txt\<close> is answered with the extension rejection message, not with the bare
  response of the claims check, because \<open>uploadRom\<close> checks the extension first.
\<close>

theorem uploadRom_extension_before_claims_counterexample:
  "getStorePathFromClaims (fixtureEnv ''rom'' ''game.txt'')
     (Ctx \<lparr>URLQuery = [], Ctx = None, Body = [1, 2, 3]\<rparr>) = None
   \<and> uploadRom (fixtureEnv ''rom'' ''game.txt'') \<lparr>URLQuery = [], Ctx = None, Body = [1, 2, 3]\<rparr>
       = (\<lparr>status = 400, headers = [],
           payload = Plain ''File not in gba format, expected extensions are .gba/.gbc/.gb/.zip/.7z''\<rparr>,
          [])
   \<and> uploadRom (fixtureEnv ''rom'' ''game.txt'') \<lparr>URLQuery = [], Ctx = None, Body = [1, 2, 3]\<rparr>
       \<noteq> (WriteHeader 400, [])"
  by (simp add: uploadRom_def fixtureEnv_def FormFile_def MaxBytesReader_def readPrefix_def
      maxUploadBytes_def Ext_def validRomExtensions_def extensionMessage_def StatusBadRequest_def
      WriteHeader_def)

text \<open>
  C2, amended. On every route a failing claims resolution ends in a response with status
  400 and no store call at all. The list routes, the download routes and the save upload
  answer with the bare status; the ROM upload answers with the bare status or, when the
  extension is not allowed, with the extension rejection message, since that check runs
  before the claims check.
\<close>

theorem claims_failure_bad_request_no_store_access:
  assumes "getStorePathFromClaims env (Ctx r) = None"
  shows "listAllRoms env r = (WriteHeader 400, [])
       \<and> listAllSaves env r = (WriteHeader 400, [])
       \<and> downloadRom env r = (WriteHeader 400, [])
       \<and> downloadSave env r = (WriteHeader 400, [])
       \<and> uploadSave env r = (WriteHeader 400, [])
       \<and> (uploadRom env r = (WriteHeader 400, [])
          \<or> uploadRom env r =
              (\<lparr>status = 400, headers = [],
                payload = Plain ''File not in gba format, expected extensions are .gba/.gbc/.gb/.zip/.7z''\<rparr>,
               []))"
  using assms
  by (auto simp: listAllRoms_def listAllSaves_def downloadRom_def downloadSave_def uploadSave_def
      uploadRom_def StatusBadRequest_def extensionMessage_def Let_def split: option.splits)

text \<open>
  The amended C2 at a request without claims that names a file on every route and uploads
  \<^verbatim>\<open>game.gba\<close>: six bare 400 responses.
\<close>

theorem claims_failure_bad_request_no_store_access_witness:
  "getStorePathFromClaims (fixtureEnv ''rom'' ''game.gba'')
     (Ctx \<lparr>URLQuery = [(''rom'', ''game.gba''), (''save'', ''game.sav'')], Ctx = None,
           Body = [1, 2, 3]\<rparr>) = None
   \<and> listAllRoms (fixtureEnv ''rom'' ''game.gba'')
       \<lparr>URLQuery = [(''rom'', ''game.gba''), (''save'', ''game.sav'')], Ctx = None,
        Body = [1, 2, 3]\<rparr> = (WriteHeader 400, [])
   \<and> downloadSave (fixtureEnv ''rom'' ''game.gba'')
       \<lparr>URLQuery = [(''rom'', ''game.gba''), (''save'', ''game.sav'')], Ctx = None,
        Body = [1, 2, 3]\<rparr> = (WriteHeader 400, [])
   \<and> uploadSave (fixtureEnv ''rom'' ''game.gba'')
       \<lparr>URLQuery = [(''rom'', ''game.gba''), (''save'', ''game.sav'')], Ctx = None,
        Body = [1, 2, 3]\<rparr> = (WriteHeader 400, [])"
proof -
  have none: "getStorePathFromClaims (fixtureEnv ''rom'' ''game.gba'')
     (Ctx \<lparr>URLQuery = [(''rom'', ''game.gba''), (''save'', ''game.sav'')], Ctx = None,
           Body = [1, 2, 3]\<rparr>) = None"
    by (simp add: fixtureEnv_def)
  from claims_failure_bad_request_no_store_access [OF none] none show ?thesis
    by simp
qed

text \<open>
  C6, as stated, fails. The cap is on what is read, not on the length of the body: a body
  of 52429825 bytes, one over the cap, whose form ends after three bytes is read to the
  end of the form only, the upload is answered with status 200 and the file of the form
  is written.
\<close>

theorem upload_padded_body_accepted_counterexample:
  "52429824 < int (length (Body \<lparr>URLQuery = [], Ctx = Some ''alice/'',
                                 Body = [1, 2, 3] @ replicate 52429822 (0 :: byte)\<rparr>))
   \<and> uploadSave (paddedFormEnv ''save'' ''game.sav'' 3)
       \<lparr>URLQuery = [], Ctx = Some ''alice/'', Body = [1, 2, 3] @ replicate 52429822 (0 :: byte)\<rparr>
       = (WriteHeader 200, [CreateOrOverwriteFile ''/srv/saves/alice/game.sav'' [1, 2, 3]])
   \<and> uploadRom (paddedFormEnv ''rom'' ''game.gba'' 3)
       \<lparr>URLQuery = [], Ctx = Some ''alice/'', Body = [1, 2, 3] @ replicate 52429822 (0 :: byte)\<rparr>
       = (WriteHeader 200, [CreateOrOverwriteFile ''/srv/roms/alice/game.gba'' [1, 2, 3]])"
  by (simp add: uploadSave_def uploadRom_def paddedFormEnv_def FormFile_def MaxBytesReader_def
      readPrefix_def maxUploadBytes_def Ext_def validRomExtensions_def StatusOK_def)

text \<open>
  C6, amended. The cap \<^verbatim>\<open>50<<20+1024\<close> is 52429824 bytes. An upload, of a ROM or of a save,
  whose multipart form (the body up to the end of the closing boundary, which is what the
  handler reads) is longer than the cap is answered with the bare status 400 and makes no
  store call. Nothing is truncated: when the form is within the cap, a save upload with
  valid claims writes the file part of the form as it is, whatever follows the form in
  the body.
\<close>

theorem upload_form_over_cap_rejected:
  "maxUploadBytes = 52429824
   \<and> (multipartForm env (Body r) = Some (formEnd, files) \<and> 52429824 < int formEnd \<longrightarrow>
        uploadRom env r = (WriteHeader 400, []) \<and> uploadSave env r = (WriteHeader 400, []))
   \<and> (multipartForm env (Body r) = Some (formEnd, files) \<and> int formEnd \<le> 52429824
        \<and> files ''save'' = Some (file, handler)
        \<and> getStorePathFromClaims env (Ctx r) = Some storePath \<longrightarrow>
        snd (uploadSave env r)
          = [CreateOrOverwriteFile (savePath env @ storePath @ Filename handler) file])"
  by (simp add: uploadRom_def uploadSave_def FormFile_def MaxBytesReader_def readPrefix_def
      maxUploadBytes_def StatusBadRequest_def Let_def)

text \<open>
  The amended C6 at forms that fill the whole body: one of 52429825 bytes, one over the
  cap, from a subject with valid claims and with an allowed filename, where only the size
  stands against the upload; and a save of three bytes, which is written.
\<close>

theorem upload_form_over_cap_rejected_witness:
  "map_option fst (multipartForm (fixtureEnv ''rom'' ''game.gba'') (replicate 52429825 (0 :: byte)))
     = Some 52429825
   \<and> 52429824 < int 52429825
   \<and> uploadRom (fixtureEnv ''rom'' ''game.gba'')
       \<lparr>URLQuery = [], Ctx = Some ''alice/'', Body = replicate 52429825 (0 :: byte)\<rparr>
       = (WriteHeader 400, [])
   \<and> map_option fst (multipartForm (fixtureEnv ''save'' ''game.sav'') (replicate 52429825 (0 :: byte)))
     = Some 52429825
   \<and> uploadSave (fixtureEnv ''save'' ''game.sav'')
       \<lparr>URLQuery = [], Ctx = Some ''alice/'', Body = replicate 52429825 (0 :: byte)\<rparr>
       = (WriteHeader 400, [])
   \<and> map_option fst (multipartForm (fixtureEnv ''save'' ''game.sav'') [1, 2, 3]) = Some 3
   \<and> int 3 \<le> 52429824
   \<and> getStorePathFromClaims (fixtureEnv ''save'' ''game.sav'') (Some ''alice/'') = Some ''alice/''
   \<and> snd (uploadSave (fixtureEnv ''save'' ''game.sav'')
            \<lparr>URLQuery = [], Ctx = Some ''alice/'', Body = [1, 2, 3]\<rparr>)
       = [CreateOrOverwriteFile ''/srv/saves/alice/game.sav'' [1, 2, 3]]"
  using
    upload_form_over_cap_rejected [of "fixtureEnv ''rom'' ''game.gba''"
      "\<lparr>URLQuery = [], Ctx = Some ''alice/'', Body = replicate 52429825 (0 :: byte)\<rparr>"
      52429825
      "\<lambda>k. if k = ''rom''
           then Some (replicate 52429825 (0 :: byte), \<lparr>Filename = ''game.gba''\<rparr>) else None"]
    upload_form_over_cap_rejected [of "fixtureEnv ''save'' ''game.sav''"
      "\<lparr>URLQuery = [], Ctx = Some ''alice/'', Body = replicate 52429825 (0 :: byte)\<rparr>"
      52429825
      "\<lambda>k. if k = ''save''
           then Some (replicate 52429825 (0 :: byte), \<lparr>Filename = ''game.sav''\<rparr>) else None"]
    upload_form_over_cap_rejected [of "fixtureEnv ''save'' ''game.sav''"
      "\<lparr>URLQuery = [], Ctx = Some ''alice/'', Body = [1, 2, 3]\<rparr>"
      3
      "\<lambda>k. if k = ''save'' then Some ([1, 2, 3], \<lparr>Filename = ''game.sav''\<rparr>) else None"
      "[1, 2, 3]" "\<lparr>Filename = ''game.sav''\<rparr>" "''alice/''"]
  by (simp add: fixtureEnv_def)

text \<open>
  C7. For a ROM upload that carries a file: when the extension of the filename
  (\<^verbatim>\<open>filepath.Ext\<close>) is not literally one of \<^verbatim>\<open>.gba\<close>, \<^verbatim>\<open>.gbc\<close>, \<^verbatim>\<open>.gb\<close>, \<^verbatim>\<open>.zip\<close>, \<^verbatim>\<open>.7z\<close>,
  the response is status 400 with the message naming the expected extensions, and no
  store call is made; when it is one of them, the check passes and the handler goes on to
  the claims check and the write.
\<close>

theorem uploadRom_extension_check:
  assumes "FormFile env (MaxBytesReader (Body r) maxUploadBytes) ''rom'' = Some (file, handler)"
  shows "(Ext (Filename handler) \<notin> {''.gba'', ''.gbc'', ''.gb'', ''.zip'', ''.7z''} \<longrightarrow>
            uploadRom env r =
              (\<lparr>status = 400, headers = [],
                payload = Plain ''File not in gba format, expected extensions are .gba/.gbc/.gb/.zip/.7z''\<rparr>,
               []))
       \<and> (Ext (Filename handler) \<in> {''.gba'', ''.gbc'', ''.gb'', ''.zip'', ''.7z''} \<longrightarrow>
            uploadRom env r =
              (case getStorePathFromClaims env (Ctx r) of
                 None \<Rightarrow> (WriteHeader 400, [])
               | Some storePath \<Rightarrow>
                   (if createOrOverwriteFileIfNotExists env (romPath env @ storePath @ Filename handler) file
                    then WriteHeader 200 else WriteHeader 500,
                    [CreateOrOverwriteFile (romPath env @ storePath @ Filename handler) file])))"
  using assms
  by (auto simp: uploadRom_def validRomExtensions_def extensionMessage_def StatusBadRequest_def
      StatusOK_def StatusInternalServerError_def Let_def split: option.splits)

text \<open>
  C7 at two uploads that differ in the case of the extension only: \<^verbatim>\<open>game.GBA\<close> is
  rejected with the message, \<^verbatim>\<open>game.gba\<close> is written under the subject's directory.
\<close>

theorem uploadRom_extension_check_witness:
  "FormFile (fixtureEnv ''rom'' ''game.GBA'')
     (MaxBytesReader (Body \<lparr>URLQuery = [], Ctx = Some ''alice/'', Body = [1, 2, 3]\<rparr>) maxUploadBytes)
     ''rom'' = Some ([1, 2, 3], \<lparr>Filename = ''game.GBA''\<rparr>)
   \<and> Ext ''game.GBA'' = ''.GBA''
   \<and> uploadRom (fixtureEnv ''rom'' ''game.GBA'')
       \<lparr>URLQuery = [], Ctx = Some ''alice/'', Body = [1, 2, 3]\<rparr>
       = (\<lparr>status = 400, headers = [],
           payload = Plain ''File not in gba format, expected extensions are .gba/.gbc/.gb/.zip/.7z''\<rparr>,
          [])
   \<and> FormFile (fixtureEnv ''rom'' ''game.gba'')
       (MaxBytesReader (Body \<lparr>URLQuery = [], Ctx = Some ''alice/'', Body = [1, 2, 3]\<rparr>) maxUploadBytes)
       ''rom'' = Some ([1, 2, 3], \<lparr>Filename = ''game.gba''\<rparr>)
   \<and> Ext ''game.gba'' = ''.gba''
   \<and> uploadRom (fixtureEnv ''rom'' ''game.gba'')
       \<lparr>URLQuery = [], Ctx = Some ''alice/'', Body = [1, 2, 3]\<rparr>
       = (WriteHeader 200, [CreateOrOverwriteFile ''/srv/roms/alice/game.gba'' [1, 2, 3]])"
proof -
  have upper: "FormFile (fixtureEnv ''rom'' ''game.GBA'')
     (MaxBytesReader (Body \<lparr>URLQuery = [], Ctx = Some ''alice/'', Body = [1, 2, 3]\<rparr>) maxUploadBytes)
     ''rom'' = Some ([1, 2, 3], \<lparr>Filename = ''game.GBA''\<rparr>)"
    by (simp add: FormFile_def MaxBytesReader_def readPrefix_def maxUploadBytes_def fixtureEnv_def)
  have lower: "FormFile (fixtureEnv ''rom'' ''game.gba'')
     (MaxBytesReader (Body \<lparr>URLQuery = [], Ctx = Some ''alice/'', Body = [1, 2, 3]\<rparr>) maxUploadBytes)
     ''rom'' = Some ([1, 2, 3], \<lparr>Filename = ''game.gba''\<rparr>)"
    by (simp add: FormFile_def MaxBytesReader_def readPrefix_def maxUploadBytes_def fixtureEnv_def)
  have ext: "Ext ''game.GBA'' = ''.GBA''" "Ext ''game.gba'' = ''.gba''"
    by (simp_all add: Ext_def)
  from uploadRom_extension_check [OF upper] uploadRom_extension_check [OF lower] upper lower ext
  show ?thesis
    by (simp add: fixtureEnv_def)
qed

section \<open>Properties of the token lifecycle manager\<close>

text \<open>The concrete decoder at the strings the examples below use.\<close>

lemma fixture_tokens:
  "fixtureJwtDecode ''h.exp1000.s'' = Some \<lparr>exp = Some 1000\<rparr>"
  "fixtureJwtDecode ''h.exp2000.s'' = Some \<lparr>exp = Some 2000\<rparr>"
  "fixtureJwtDecode ''h.exp0.s'' = Some \<lparr>exp = Some 0\<rparr>"
  "fixtureJwtDecode ''h.noexp.s'' = Some \<lparr>exp = None\<rparr>"
  "fixtureJwtDecode ''garbage'' = None"
  "fixtureJwtDecode [] = None"
  by (simp_all add: fixtureJwtDecode_def)

text \<open>
  C3, as stated, fails. The claim: while a refresh call is in flight a tick of the
  interval starts no further call, because the timer is gated on the loading flag. Here
  a refresh is loading, the held token is valid and no error is recorded: the render
  hands \<^verbatim>\<open>useInterval\<close> the delay of four minutes and the tick issues one more
  \<^verbatim>\<open>executeRefresh()\<close>.
\<close>

theorem interval_tick_while_loading_counterexample:
  "refreshLoading \<lparr>accessToken = Some ''h.exp1000.s'', accessTokenSource = Some Refresh,
       accessTokenResp = None, refreshLoading = True, refreshTokenError = (None :: string option)\<rparr>
   \<and> intervalDelay fixtureJwtDecode
       \<lparr>accessToken = Some ''h.exp1000.s'', accessTokenSource = Some Refresh,
        accessTokenResp = None, refreshLoading = True, refreshTokenError = (None :: string option)\<rparr>
       900000 = Inr (Some 240000)
   \<and> intervalTick fixtureJwtDecode
       \<lparr>accessToken = Some ''h.exp1000.s'', accessTokenSource = Some Refresh,
        accessTokenResp = None, refreshLoading = True, refreshTokenError = (None :: string option)\<rparr>
       900000 = Inr 1"
  by (simp add: intervalTick_def intervalDelay_def isAuthenticated_def fixture_tokens
      fourMinutesInMS_def)

text \<open>
  C3, amended. The timer is gated on \<open>isAuthenticated\<close> and on the absence of a refresh
  error only: the loading flag changes neither the delay nor what a tick does, and a tick
  issues a refresh call exactly when the held token is valid and no refresh error is
  recorded, also while an earlier call is still loading.
\<close>

theorem interval_gate_ignores_loading:
  "intervalDelay jwtDecode (s\<lparr>refreshLoading := b\<rparr>) now = intervalDelay jwtDecode s now
   \<and> intervalTick jwtDecode (s\<lparr>refreshLoading := b\<rparr>) now = intervalTick jwtDecode s now
   \<and> (intervalTick jwtDecode s now = Inr 1)
       = (isAuthenticated jwtDecode (accessToken s) now = Inr True \<and> refreshTokenError s = None)"
  by (auto simp: intervalTick_def intervalDelay_def split: sum.splits option.splits)

text \<open>
  C4, as stated, fails, in two ways. First: a login leaves a valid token, a refresh then
  fails, and a second login sets another valid token. The render after the failed refresh
  already asked for the error to be cleared, so in the render after the second login the
  dependencies of the effect are what they were, the effect is skipped, the error stays
  and the interval stays off. Second: a failure is recorded and a login has set a valid
  token, but the hook still holds the response of an earlier refresh; the render does not
  ask for the error to be cleared at all, first render or not.
\<close>

theorem login_keeps_refresh_error_counterexample:
  "shouldClearRefreshTokenError fixtureJwtDecode
       \<lparr>accessToken = Some ''h.exp1000.s'', accessTokenSource = Some Login,
        accessTokenResp = None, refreshLoading = False,
        refreshTokenError = Some ''refresh failed''\<rparr> 900000 = Inr True
   \<and> isAuthenticated fixtureJwtDecode (Some ''h.exp2000.s'') 905000 = Inr True
   \<and> shouldClearRefreshTokenError fixtureJwtDecode
       \<lparr>accessToken = Some ''h.exp2000.s'', accessTokenSource = Some Login,
        accessTokenResp = None, refreshLoading = False,
        refreshTokenError = Some ''refresh failed''\<rparr> 905000 = Inr True
   \<and> clearErrorEffect fixtureJwtDecode (Some (True, 0 :: nat)) 0
       \<lparr>accessToken = Some ''h.exp2000.s'', accessTokenSource = Some Login,
        accessTokenResp = None, refreshLoading = False,
        refreshTokenError = Some ''refresh failed''\<rparr> 905000
       = Inr \<lparr>accessToken = Some ''h.exp2000.s'', accessTokenSource = Some Login,
              accessTokenResp = None, refreshLoading = False,
              refreshTokenError = Some ''refresh failed''\<rparr>
   \<and> intervalTick fixtureJwtDecode
       \<lparr>accessToken = Some ''h.exp2000.s'', accessTokenSource = Some Login,
        accessTokenResp = None, refreshLoading = False,
        refreshTokenError = Some ''refresh failed''\<rparr> 905000 = Inr 0
   \<and> isAuthenticated fixtureJwtDecode (Some ''h.exp1000.s'') 900000 = Inr True
   \<and> shouldClearRefreshTokenError fixtureJwtDecode
       \<lparr>accessToken = Some ''h.exp1000.s'', accessTokenSource = Some Login,
        accessTokenResp = Some ''h.exp0.s'', refreshLoading = False,
        refreshTokenError = Some ''refresh failed''\<rparr> 900000 = Inr False
   \<and> clearErrorEffect fixtureJwtDecode (None :: (bool \<times> nat) option) 0
       \<lparr>accessToken = Some ''h.exp1000.s'', accessTokenSource = Some Login,
        accessTokenResp = Some ''h.exp0.s'', refreshLoading = False,
        refreshTokenError = Some ''refresh failed''\<rparr> 900000
       = Inr \<lparr>accessToken = Some ''h.exp1000.s'', accessTokenSource = Some Login,
              accessTokenResp = Some ''h.exp0.s'', refreshLoading = False,
              refreshTokenError = Some ''refresh failed''\<rparr>
   \<and> intervalTick fixtureJwtDecode
       \<lparr>accessToken = Some ''h.exp1000.s'', accessTokenSource = Some Login,
        accessTokenResp = Some ''h.exp0.s'', refreshLoading = False,
        refreshTokenError = Some ''refresh failed''\<rparr> 900000 = Inr 0"
  by (simp add: clearErrorEffect_def shouldClearRefreshTokenError_def intervalTick_def
      intervalDelay_def isAuthenticated_def truthy_def fixture_tokens)

text \<open>
  C4, amended. The render asks for the refresh error to be cleared exactly when the held
  token is valid, the source of the token is not \<^verbatim>\<open>refresh\<close> and the hook holds no token
  response (\<^verbatim>\<open>accessTokenResp\<close> is \<^verbatim>\<open>null\<close> or empty). When it asks so and the effect runs,
  that is, in the first render or when the render before did not ask for it or the hook
  has returned another \<^verbatim>\<open>clearError\<close>, the effect clears the recorded error; and with the
  error gone, every later render that still finds the token valid hands over the delay of
  four minutes, and its tick issues a refresh call.
\<close>

theorem login_clears_refresh_error:
  "(shouldClearRefreshTokenError jwtDecode s now = Inr True)
     = (isAuthenticated jwtDecode (accessToken s) now = Inr True
        \<and> \<not> truthy (accessTokenResp s) \<and> accessTokenSource s \<noteq> Some Refresh)
   \<and> (isAuthenticated jwtDecode (accessToken s) now = Inr True
        \<and> \<not> truthy (accessTokenResp s) \<and> accessTokenSource s \<noteq> Some Refresh
        \<and> prevDeps \<noteq> Some (True, clearId)
        \<and> isAuthenticated jwtDecode (accessToken s) later = Inr True \<longrightarrow>
        clearErrorEffect jwtDecode prevDeps clearId s now = Inr (refreshClearError s)
        \<and> refreshTokenError (refreshClearError s) = None
        \<and> intervalDelay jwtDecode (refreshClearError s) later = Inr (Some 240000)
        \<and> intervalTick jwtDecode (refreshClearError s) later = Inr 1)"
  by (auto simp: clearErrorEffect_def shouldClearRefreshTokenError_def intervalTick_def
      intervalDelay_def refreshClearError_def fourMinutesInMS_def split: sum.splits)

text \<open>
  The amended C4 after a failed refresh and a first login: the render before, without a
  token, did not ask for the error to be cleared; before the effect the interval is off,
  the effect removes the error, and the tick of the next render issues a call.
\<close>

theorem login_clears_refresh_error_witness:
  "isAuthenticated fixtureJwtDecode (Some ''h.exp1000.s'') 900000 = Inr True
   \<and> \<not> truthy None
   \<and> Some Login \<noteq> Some Refresh
   \<and> Some (False, 0 :: nat) \<noteq> Some (True, 0)
   \<and> isAuthenticated fixtureJwtDecode (Some ''h.exp1000.s'') 900001 = Inr True
   \<and> intervalTick fixtureJwtDecode
       \<lparr>accessToken = Some ''h.exp1000.s'', accessTokenSource = Some Login,
        accessTokenResp = None, refreshLoading = False,
        refreshTokenError = Some ''refresh failed''\<rparr> 900000 = Inr 0
   \<and> clearErrorEffect fixtureJwtDecode (Some (False, 0 :: nat)) 0
       \<lparr>accessToken = Some ''h.exp1000.s'', accessTokenSource = Some Login,
        accessTokenResp = None, refreshLoading = False,
        refreshTokenError = Some ''refresh failed''\<rparr> 900000
       = Inr \<lparr>accessToken = Some ''h.exp1000.s'', accessTokenSource = Some Login,
              accessTokenResp = None, refreshLoading = False,
              refreshTokenError = None\<rparr>
   \<and> intervalTick fixtureJwtDecode
       \<lparr>accessToken = Some ''h.exp1000.s'', accessTokenSource = Some Login,
        accessTokenResp = None, refreshLoading = False,
        refreshTokenError = (None :: string option)\<rparr> 900001 = Inr 1"
proof -
  have live: "isAuthenticated fixtureJwtDecode (Some ''h.exp1000.s'') 900000 = Inr True"
    "isAuthenticated fixtureJwtDecode (Some ''h.exp1000.s'') 900001 = Inr True"
    by (simp_all add: isAuthenticated_def fixture_tokens)
  have before: "intervalTick fixtureJwtDecode
       \<lparr>accessToken = Some ''h.exp1000.s'', accessTokenSource = Some Login,
        accessTokenResp = None, refreshLoading = False,
        refreshTokenError = Some ''refresh failed''\<rparr> 900000 = Inr 0"
    by (simp add: intervalTick_def intervalDelay_def live)
  from login_clears_refresh_error [of fixtureJwtDecode
      "\<lparr>accessToken = Some ''h.exp1000.s'', accessTokenSource = Some Login,
        accessTokenResp = None, refreshLoading = False,
        refreshTokenError = Some ''refresh failed''\<rparr>" 900000
      "Some (False, 0 :: nat)" 0 900001] live before
  show ?thesis
    by (simp add: truthy_def refreshClearError_def)
qed

text \<open>
  C5, as stated, fails at one point: for a token whose \<^verbatim>\<open>exp\<close> is 0 and the clock at 0
  the expiry is not strictly in the past, and \<open>isAuthenticated\<close> still returns false,
  since \<^verbatim>\<open>exp && ...\<close> takes a zero \<^verbatim>\<open>exp\<close> for a missing one.
\<close>

theorem isAuthenticated_epoch_expiry_counterexample:
  "fixtureJwtDecode ''h.exp0.s'' = Some \<lparr>exp = Some 0\<rparr>
   \<and> \<not> ((0::int) * 1000 < 0)
   \<and> isAuthenticated fixtureJwtDecode (Some ''h.exp0.s'') 0 = Inr False"
  by (simp add: isAuthenticated_def fixture_tokens)

text \<open>
  C5, amended. \<open>isAuthenticated\<close> returns true iff a non-empty token is held that decodes
  to a payload with an \<^verbatim>\<open>exp\<close> other than 0 and \<open>now \<le> exp * 1000\<close>, the seconds of \<^verbatim>\<open>exp\<close>
  taken to the milliseconds of the clock. For a token with \<^verbatim>\<open>exp\<close> = 1000 it is true at
  second 900 and false at second 1001.
\<close>

theorem isAuthenticated_iff_unexpired:
  "(isAuthenticated jwtDecode token now = Inr True)
     = (\<exists>t p e. token = Some t \<and> t \<noteq> [] \<and> jwtDecode t = Some p \<and> exp p = Some e
          \<and> e \<noteq> 0 \<and> now \<le> e * 1000)
   \<and> (t \<noteq> [] \<and> jwtDecode t = Some \<lparr>exp = Some 1000\<rparr> \<longrightarrow>
        isAuthenticated jwtDecode (Some t) (900 * 1000) = Inr True
        \<and> isAuthenticated jwtDecode (Some t) (1001 * 1000) = Inr False)"
  by (auto simp: isAuthenticated_def split: option.splits)

text \<open>The amended C5 at the token of the concrete decoder that expires at second 1000.\<close>

theorem isAuthenticated_iff_unexpired_witness:
  "''h.exp1000.s'' \<noteq> []
   \<and> fixtureJwtDecode ''h.exp1000.s'' = Some \<lparr>exp = Some 1000\<rparr>
   \<and> isAuthenticated fixtureJwtDecode (Some ''h.exp1000.s'') (900 * 1000) = Inr True
   \<and> isAuthenticated fixtureJwtDecode (Some ''h.exp1000.s'') (1001 * 1000) = Inr False"
  using isAuthenticated_iff_unexpired [of fixtureJwtDecode "Some ''h.exp1000.s''" "900 * 1000" "''h.exp1000.s''"]
  by (simp add: fixture_tokens)

text \<open>
  C8, as stated, fails for a token that expires between a render and the tick. The render
  at second 900 finds the token (expiry at second 1000) valid and sets the interval; no
  render follows, since the passing of time causes none; the tick comes at second 1140,
  when the token has expired, and still issues a refresh call.
\<close>

theorem interval_fires_after_expiry_counterexample:
  "intervalDelay fixtureJwtDecode
       \<lparr>accessToken = Some ''h.exp1000.s'', accessTokenSource = Some Refresh,
        accessTokenResp = None, refreshLoading = False,
        refreshTokenError = (None :: string option)\<rparr> 900000 = Inr (Some 240000)
   \<and> firstTickAt fixtureJwtDecode
       \<lparr>accessToken = Some ''h.exp1000.s'', accessTokenSource = Some Refresh,
        accessTokenResp = None, refreshLoading = False,
        refreshTokenError = (None :: string option)\<rparr> 900000 = Inr (Some 1140000)
   \<and> isAuthenticated fixtureJwtDecode (Some ''h.exp1000.s'') 1140000 = Inr False
   \<and> intervalTick fixtureJwtDecode
       \<lparr>accessToken = Some ''h.exp1000.s'', accessTokenSource = Some Refresh,
        accessTokenResp = None, refreshLoading = False,
        refreshTokenError = (None :: string option)\<rparr> 900000 = Inr 1"
  by (simp add: firstTickAt_def intervalTick_def intervalDelay_def isAuthenticated_def
      fixture_tokens fourMinutesInMS_def)

text \<open>
  C8, amended. The condition of the interval is evaluated in renders. A render that finds a
  refresh error recorded, or no token, or a token whose expiry lies before the render,
  hands \<^verbatim>\<open>useInterval\<close> the delay \<^verbatim>\<open>null\<close>: no timer is set and no refresh call is issued
  from that render on. A tick issues a call only when the render that set the interval
  found no error and a valid token; such an interval fires four minutes after its render
  whatever the token's expiry is by then. (With an error recorded the delay is computed
  whenever \<open>isAuthenticated\<close> returns at all, which is the first conjunct's condition.)
\<close>

theorem interval_suppressed_from_render:
  "(refreshTokenError s \<noteq> None \<and> isAuthenticated jwtDecode (accessToken s) renderedAt = Inr a \<longrightarrow>
      intervalDelay jwtDecode s renderedAt = Inr None
      \<and> intervalTick jwtDecode s renderedAt = Inr 0
      \<and> firstTickAt jwtDecode s renderedAt = Inr None)
   \<and> (accessToken s = None \<longrightarrow>
      intervalDelay jwtDecode s renderedAt = Inr None
      \<and> intervalTick jwtDecode s renderedAt = Inr 0
      \<and> firstTickAt jwtDecode s renderedAt = Inr None)
   \<and> (accessToken s = Some t \<and> jwtDecode t = Some p \<and> exp p = Some e \<and> e * 1000 < renderedAt \<longrightarrow>
      intervalDelay jwtDecode s renderedAt = Inr None
      \<and> intervalTick jwtDecode s renderedAt = Inr 0
      \<and> firstTickAt jwtDecode s renderedAt = Inr None)
   \<and> (intervalTick jwtDecode s renderedAt = Inr 1 \<longrightarrow>
      refreshTokenError s = None \<and> isAuthenticated jwtDecode (accessToken s) renderedAt = Inr True)
   \<and> (refreshTokenError s = None \<and> isAuthenticated jwtDecode (accessToken s) renderedAt = Inr True \<longrightarrow>
      intervalTick jwtDecode s renderedAt = Inr 1
      \<and> firstTickAt jwtDecode s renderedAt = Inr (Some (renderedAt + 240000)))"
  by (auto simp: firstTickAt_def intervalTick_def intervalDelay_def isAuthenticated_def
      fourMinutesInMS_def split: sum.splits option.splits if_splits)

text \<open>
  The amended C8 at four renders: a valid token with a recorded error, no token, a token
  past its expiry, and a valid token without error, where the interval runs and fires at
  second 1140.
\<close>

theorem interval_suppressed_from_render_witness:
  "intervalDelay fixtureJwtDecode
     \<lparr>accessToken = Some ''h.exp1000.s'', accessTokenSource = Some Refresh,
      accessTokenResp = None, refreshLoading = False,
      refreshTokenError = Some ''refresh failed''\<rparr> 900000 = Inr None
   \<and> intervalDelay fixtureJwtDecode
     \<lparr>accessToken = None, accessTokenSource = None,
      accessTokenResp = None, refreshLoading = False,
      refreshTokenError = (None :: string option)\<rparr> 900000 = Inr None
   \<and> intervalDelay fixtureJwtDecode
     \<lparr>accessToken = Some ''h.exp1000.s'', accessTokenSource = Some Refresh,
      accessTokenResp = None, refreshLoading = False,
      refreshTokenError = (None :: string option)\<rparr> 1001000 = Inr None
   \<and> intervalTick fixtureJwtDecode
     \<lparr>accessToken = Some ''h.exp1000.s'', accessTokenSource = Some Refresh,
      accessTokenResp = None, refreshLoading = False,
      refreshTokenError = (None :: string option)\<rparr> 900000 = Inr 1
   \<and> firstTickAt fixtureJwtDecode
     \<lparr>accessToken = Some ''h.exp1000.s'', accessTokenSource = Some Refresh,
      accessTokenResp = None, refreshLoading = False,
      refreshTokenError = (None :: string option)\<rparr> 900000 = Inr (Some 1140000)"
proof -
  have live: "isAuthenticated fixtureJwtDecode (Some ''h.exp1000.s'') 900000 = Inr True"
    by (simp add: isAuthenticated_def fixture_tokens)
  from interval_suppressed_from_render [of
      "\<lparr>accessToken = Some ''h.exp1000.s'', accessTokenSource = Some Refresh,
        accessTokenResp = None, refreshLoading = False,
        refreshTokenError = Some ''refresh failed''\<rparr>" fixtureJwtDecode 900000 True]
    interval_suppressed_from_render [of
      "\<lparr>accessToken = None, accessTokenSource = None,
        accessTokenResp = None, refreshLoading = False,
        refreshTokenError = (None :: string option)\<rparr>" fixtureJwtDecode 900000]
    interval_suppressed_from_render [of
      "\<lparr>accessToken = Some ''h.exp1000.s'', accessTokenSource = Some Refresh,
        accessTokenResp = None, refreshLoading = False,
        refreshTokenError = (None :: string option)\<rparr>" fixtureJwtDecode 1001000 True
      "''h.exp1000.s''" "\<lparr>exp = Some 1000\<rparr>" 1000]
    interval_suppressed_from_render [of
      "\<lparr>accessToken = Some ''h.exp1000.s'', accessTokenSource = Some Refresh,
        accessTokenResp = None, refreshLoading = False,
        refreshTokenError = (None :: string option)\<rparr>" fixtureJwtDecode 900000 True]
    live
  show ?thesis
    by (simp add: fixture_tokens)
qed

text \<open>
  C10, as stated, fails at one point: the empty string is a held token that is not
  \<^verbatim>\<open>null\<close> and not decodable, yet \<open>isAuthenticated\<close> returns false instead of throwing,
  since \<^verbatim>\<open>if (accessToken)\<close> takes the empty string for no token.
\<close>

theorem isAuthenticated_empty_token_counterexample:
  "Some [] \<noteq> (None :: string option)
   \<and> fixtureJwtDecode [] = None
   \<and> isAuthenticated fixtureJwtDecode (Some []) 0 = Inr False"
  by (simp add: isAuthenticated_def fixture_tokens)

text \<open>
  C10, amended. \<open>isAuthenticated\<close> returns false when the held token is \<^verbatim>\<open>null\<close> or the
  empty string, and when a non-empty token decodes to a payload without \<^verbatim>\<open>exp\<close>; for a
  non-empty token that is not decodable the call throws the decoder's exception.
\<close>

theorem isAuthenticated_total_on_decodable:
  "isAuthenticated jwtDecode None now = Inr False
   \<and> isAuthenticated jwtDecode (Some []) now = Inr False
   \<and> (t \<noteq> [] \<and> jwtDecode t = Some p \<and> exp p = None \<longrightarrow>
        isAuthenticated jwtDecode (Some t) now = Inr False)
   \<and> (t \<noteq> [] \<and> jwtDecode t = None \<longrightarrow>
        isAuthenticated jwtDecode (Some t) now = Inl InvalidTokenError)"
  by (simp add: isAuthenticated_def)

text \<open>The amended C10 at a token without \<^verbatim>\<open>exp\<close> and at a string that is no token.\<close>

theorem isAuthenticated_total_on_decodable_witness:
  "''h.noexp.s'' \<noteq> [] \<and> fixtureJwtDecode ''h.noexp.s'' = Some \<lparr>exp = None\<rparr>
   \<and> isAuthenticated fixtureJwtDecode (Some ''h.noexp.s'') 900000 = Inr False
   \<and> ''garbage'' \<noteq> [] \<and> fixtureJwtDecode ''garbage'' = None
   \<and> isAuthenticated fixtureJwtDecode (Some ''garbage'') 900000 = Inl InvalidTokenError"
  using isAuthenticated_total_on_decodable [of fixtureJwtDecode 900000 "''h.noexp.s''" "\<lparr>exp = None\<rparr>"]
    isAuthenticated_total_on_decodable [of fixtureJwtDecode 900000 "''garbage''"]
  by (simp add: fixture_tokens)

end
